theory Spec2Isabelle
  imports Complex_Main
begin

section \<open>JavaScript primitives used by the pages\<close>

text \<open>
  JavaScript numbers are modelled as rationals. The pages only form \<open>h + m / 60\<close>,
  differences of such values and millisecond counts of a day or two, where the double
  arithmetic orders and rounds as the rationals do. \<open>NaN\<close> and \<open>null\<close> are \<open>None\<close>.
\<close>

definition is_digit :: "char \<Rightarrow> bool" where
  "is_digit c \<longleftrightarrow> c \<in> set ''0123456789''"

definition digit_value :: "char \<Rightarrow> nat" where
  "digit_value c = length (takeWhile (\<lambda>d. d \<noteq> c) ''0123456789'')"

definition digits_value :: "string \<Rightarrow> nat" where
  "digits_value ds = foldl (\<lambda>acc c. acc * 10 + digit_value c) 0 ds"

text \<open>The ASCII members of the white space that \<open>parseInt\<close> skips.\<close>

definition is_ws :: "char \<Rightarrow> bool" where
  "is_ws c \<longleftrightarrow> c \<in> {CHR 0x09, CHR 0x0A, CHR 0x0B, CHR 0x0C, CHR 0x0D, CHR 0x20}"

text \<open>
  \<open>parseInt(s, 10)\<close>: leading white space is skipped, one sign is read, then the longest
  run of decimal digits; no digit at all gives \<open>NaN\<close>.
\<close>

definition parseInt :: "string \<Rightarrow> int option" where
  "parseInt s =
     (let t = dropWhile is_ws s;
          neg = (t \<noteq> [] \<and> hd t = CHR ''-'');
          u = (if t \<noteq> [] \<and> (hd t = CHR ''-'' \<or> hd t = CHR ''+'') then tl t else t);
          z = takeWhile is_digit u
      in if z = [] then None
         else Some (if neg then - int (digits_value z) else int (digits_value z)))"

text \<open>\<open>s.split(':')\<close>.\<close>

fun split_colon :: "string \<Rightarrow> string list" where
  "split_colon [] = [[]]"
| "split_colon (c # cs) =
     (if c = CHR '':'' then [] # split_colon cs
      else (case split_colon cs of
              [] \<Rightarrow> [[c]]
            | p # ps \<Rightarrow> (c # p) # ps))"

text \<open>
  \<open>Number(s)\<close> on the pieces of a time that passed the schema's regular expression:
  a non-empty run of decimal digits. Other strings are outside what the schema lets
  through and are \<open>None\<close> here.
\<close>

definition Number_digits :: "string \<Rightarrow> int option" where
  "Number_digits s =
     (if s \<noteq> [] \<and> list_all is_digit s then Some (int (digits_value s)) else None)"

text \<open>
  \<open>Number(x.toFixed(2))\<close>: the nearest multiple of 1/100, a tie going away from zero.
\<close>

definition toFixed2 :: "rat \<Rightarrow> rat" where
  "toFixed2 x =
     (if x < 0 then - (of_int \<lfloor>(- x) * 100 + 1 / 2\<rfloor> / 100)
      else of_int \<lfloor>x * 100 + 1 / 2\<rfloor> / 100)"

text \<open>
  A \<open>Date\<close> is its millisecond count in local time; the time zone is taken to have a
  constant offset, so that differences of \<open>getTime()\<close> are differences of these counts.
\<close>

type_synonym js_date = int

definition setHours :: "js_date \<Rightarrow> int \<Rightarrow> int \<Rightarrow> js_date" where
  "setHours d h m = (d div 86400000) * 86400000 + h * 3600000 + m * 60000"

definition nextDay :: "js_date \<Rightarrow> js_date" where
  "nextDay d = d + 86400000"

text \<open>
  \<open>format(d, "yyyy-MM-dd")\<close> names the calendar day of \<open>d\<close>; the column
  \<open>date_prestation\<close> is modelled by the day's number rather than by its text.
\<close>

definition format_day :: "js_date \<Rightarrow> int" where
  "format_day d = d div 86400000"

section \<open>The tables\<close>

record prestation =
  date_prestation :: int
  heure_debut :: string
  heure_fin :: string
  heures_calculees :: rat
  adresse :: string
  statut_validation :: string
  tarif_horaire_utilise :: "rat option"
  client_id :: string
  project_id :: "string option"
  user_id :: string

record client =
  nom :: string
  adresse_client :: "string option"
  email_facturation :: "string option"
  telephone :: "string option"
  tarif_horaire :: "rat option"

record database =
  clients :: "string \<rightharpoonup> client"
  prestations :: "string \<rightharpoonup> prestation"

text \<open>
  A request to the database either is answered with an error, and then has changed
  nothing, or is carried out. Which requests of a handler are answered with an error for
  reasons outside the tables (network, permissions) is a parameter \<open>failing\<close> of every
  handler: \<open>failing n\<close> says so of the handler's request number \<open>n\<close>.

  \<open>.select(...).eq('id', k).single()\<close> is an error unless exactly one row has the key.
  \<open>.update(f).eq('id', k)\<close> rewrites the row with the key, and is no error when there is
  none.
\<close>

definition select_single :: "bool \<Rightarrow> ('k \<rightharpoonup> 'r) \<Rightarrow> 'k \<Rightarrow> 'r option" where
  "select_single fails table k = (if fails then None else table k)"

definition update_eq_id ::
  "bool \<Rightarrow> ('r \<Rightarrow> 'r) \<Rightarrow> 'k \<Rightarrow> ('k \<rightharpoonup> 'r) \<Rightarrow> ('k \<rightharpoonup> 'r) option" where
  "update_eq_id fails f k table =
     (if fails then None
      else Some (case table k of None \<Rightarrow> table | Some r \<Rightarrow> table(k \<mapsto> f r)))"

text \<open>What a handler throws and then reports through \<open>toast.error\<close>.\<close>

datatype erreur =
    ErreurClient
  | TarifNonDefini
  | ErreurValidation
  | DateRequise
  | ClientRequis
  | DateEtClientRequis
  | ErreurSauvegarde
  | ErreurRecuperationTarif
  | ErreurMiseAJourClient
  | AucunClientSelectionne
  | NomObligatoire
  | NomEtTarifObligatoires
  | ActionNonAutorisee
  | ErreurEnregistrement

datatype toast = ToastSuccess | ToastInfo | ToastWarning | ToastError erreur

section \<open>The collaborator's page: recording a prestation\<close>

record app_user =
  user_ident :: string
  role :: string
  statut_validation_user :: string

record 'd prestation_form =
  form_date_prestation :: 'd
  form_heure_debut :: string
  form_heure_fin :: string
  form_client_id :: string
  form_project_id :: string
  form_adresse :: string

text \<open>The regular expression \<open>/^([01]\d|2[0-3]):([0-5]\d)$/\<close>.\<close>

definition heure_regex :: "string \<Rightarrow> bool" where
  "heure_regex s =
     (case s of
        [a, b, c, d, e] \<Rightarrow>
          ((a \<in> set ''01'' \<and> is_digit b) \<or> (a = CHR ''2'' \<and> b \<in> set ''0123''))
          \<and> c = CHR '':'' \<and> d \<in> set ''012345'' \<and> is_digit e
      | _ \<Rightarrow> False)"

text \<open>\<open>const [hour, minute] = s.split(':').map(Number)\<close>.\<close>

definition split_map_Number :: "string \<Rightarrow> (int \<times> int) option" where
  "split_map_Number s =
     (case map Number_digits (split_colon s) of
        Some h # Some m # _ \<Rightarrow> Some (h, m)
      | _ \<Rightarrow> None)"

text \<open>
  The schema's \<open>refine\<close>: the end is moved to the next day when it is not after the
  start, and the answer is whether the end is then after the start.
\<close>

definition refine_heures :: "string \<Rightarrow> string \<Rightarrow> bool option" where
  "refine_heures debut fin =
     (case (split_map_Number debut, split_map_Number fin) of
        (Some (startHour, startMinute), Some (endHour, endMinute)) \<Rightarrow>
          (let startTime = startHour * 60 + startMinute;
               endTime0 = endHour * 60 + endMinute;
               endTime = (if endTime0 \<le> startTime then endTime0 + 24 * 60 else endTime0)
           in Some (endTime > startTime))
      | _ \<Rightarrow> None)"

text \<open>
  \<open>prestationSchema\<close>, as the form resolver uses it: the validated data when every field
  passes and the refinement holds, nothing otherwise (the form then shows the messages and
  \<open>onSubmit\<close> is not called).
\<close>

definition prestationSchema ::
  "js_date option prestation_form \<Rightarrow> js_date prestation_form option" where
  "prestationSchema f =
     (case form_date_prestation f of
        None \<Rightarrow> None
      | Some d \<Rightarrow>
          if heure_regex (form_heure_debut f) \<and> heure_regex (form_heure_fin f)
             \<and> form_client_id f \<noteq> [] \<and> form_project_id f \<noteq> [] \<and> form_adresse f \<noteq> []
             \<and> refine_heures (form_heure_debut f) (form_heure_fin f) = Some True
          then Some \<lparr>form_date_prestation = d, form_heure_debut = form_heure_debut f,
                  form_heure_fin = form_heure_fin f, form_client_id = form_client_id f,
                  form_project_id = form_project_id f, form_adresse = form_adresse f\<rparr>
          else None)"

text \<open>
  The hours \<open>onSubmit\<close> computes: both times are set on the day of the prestation, the
  end is moved one day on when it is not after the start, and the difference in hours is
  rounded to two decimals.
\<close>

definition calculate_hours :: "js_date \<Rightarrow> string \<Rightarrow> string \<Rightarrow> rat option" where
  "calculate_hours date debut fin =
     (case (split_map_Number debut, split_map_Number fin) of
        (Some (startHour, startMinute), Some (endHour, endMinute)) \<Rightarrow>
          (let startDate = setHours date startHour startMinute;
               endDate0 = setHours date endHour endMinute;
               endDate = (if endDate0 \<le> startDate then nextDay endDate0 else endDate0);
               durationMs = endDate - startDate;
               heures = of_int durationMs / (1000 * 60 * 60)
           in Some (toFixed2 heures))
      | _ \<Rightarrow> None)"

text \<open>
  The minutes since midnight of a time that the schema accepts, as \<open>refine\<close> computes
  them (\<open>hour * 60 + minute\<close>); 0 for a text that does not split into two numbers.
\<close>

definition clock_minutes :: "string \<Rightarrow> int" where
  "clock_minutes s = (case split_map_Number s of None \<Rightarrow> 0 | Some (h, m) \<Rightarrow> h * 60 + m)"

text \<open>
  \<open>onSubmit\<close> of the collaborator's page. \<open>new_id\<close> is the key the database gives the
  inserted row; the insert is the handler's request 0. The data come from the schema, so
  both times split into two numbers; the branch for times that do not is never taken from
  \<open>handleSubmit\<close> and inserts nothing.
\<close>

definition onSubmit ::
  "app_user option \<Rightarrow> (nat \<Rightarrow> bool) \<Rightarrow> string \<Rightarrow> js_date prestation_form \<Rightarrow> database
     \<Rightarrow> database \<times> toast list" where
  "onSubmit user failing new_id data db =
     (case user of
        None \<Rightarrow> (db, [ToastError ActionNonAutorisee])
      | Some u \<Rightarrow>
          if statut_validation_user u \<noteq> ''valide'' then (db, [ToastError ActionNonAutorisee])
          else
            (case calculate_hours (form_date_prestation data) (form_heure_debut data)
                    (form_heure_fin data) of
               None \<Rightarrow> (db, [ToastError ErreurEnregistrement])
             | Some h \<Rightarrow>
                 (let prestationData =
                        \<lparr>date_prestation = format_day (form_date_prestation data),
                         heure_debut = form_heure_debut data,
                         heure_fin = form_heure_fin data,
                         heures_calculees = h,
                         adresse = form_adresse data,
                         statut_validation = ''en_attente_validation'',
                         tarif_horaire_utilise = None,
                         client_id = form_client_id data,
                         project_id = Some (form_project_id data),
                         user_id = user_ident u\<rparr>
                  in if failing 0 then (db, [ToastError ErreurEnregistrement])
                     else (db\<lparr>prestations := (prestations db)(new_id \<mapsto> prestationData)\<rparr>,
                           [ToastSuccess]))))"

text \<open>\<open>handleSubmit(onSubmit)\<close>: the schema first, the handler on what it accepts.\<close>

definition handleSubmit ::
  "app_user option \<Rightarrow> (nat \<Rightarrow> bool) \<Rightarrow> string \<Rightarrow> js_date option prestation_form \<Rightarrow> database
     \<Rightarrow> database \<times> toast list" where
  "handleSubmit user failing new_id f db =
     (case prestationSchema f of
        None \<Rightarrow> (db, [])
      | Some data \<Rightarrow> onSubmit user failing new_id data db)"

section \<open>The administrator's page: validating and amending prestations\<close>

text \<open>\<open>parseTime\<close>, written out three times in the page with the same body.\<close>

definition parseTime :: "string \<Rightarrow> rat option" where
  "parseTime timeStr =
     (if timeStr = [] \<or> CHR '':'' \<notin> set timeStr then None
      else (case split_colon timeStr of
              p0 # p1 # _ \<Rightarrow>
                (case (parseInt p0, parseInt p1) of
                   (Some hours, Some minutes) \<Rightarrow> Some (of_int hours + of_int minutes / 60)
                 | _ \<Rightarrow> None)
            | _ \<Rightarrow> None))"

text \<open>
  \<open>heuresCalculeesFinal\<close> of \<open>handleSaveChanges\<close> and \<open>handleSaveAndValidate\<close>: it starts
  at 0 and becomes \<open>end - start\<close> only when both times parse and \<open>end > start\<close>.
\<close>

definition heuresCalculeesFinal :: "string \<Rightarrow> string \<Rightarrow> rat" where
  "heuresCalculeesFinal debut fin =
     (case (parseTime debut, parseTime fin) of
        (Some start, Some end') \<Rightarrow> if end' > start then end' - start else 0
      | _ \<Rightarrow> 0)"

text \<open>
  The effect that recomputes the hours shown in the dialog; the text \<open>duration.toFixed(2)\<close>
  is modelled by its value.
\<close>

definition heuresCalculeesDisplay :: "string \<Rightarrow> string \<Rightarrow> rat" where
  "heuresCalculeesDisplay debut fin =
     (case (parseTime debut, parseTime fin) of
        (Some start, Some end') \<Rightarrow> if end' > start then toFixed2 (end' - start) else 0
      | _ \<Rightarrow> 0)"

text \<open>
  \<open>handleValidate(prestationId, clientId)\<close>. Request 0 reads the client's rate, request 1
  writes the prestation. The handler reads no status of the prestation.
\<close>

definition handleValidate ::
  "(nat \<Rightarrow> bool) \<Rightarrow> string \<Rightarrow> string \<Rightarrow> database \<Rightarrow> database \<times> toast list" where
  "handleValidate failing prestationId clientId db =
     (case select_single (failing 0) (clients db) clientId of
        None \<Rightarrow> (db, [ToastError ErreurClient])
      | Some clientData \<Rightarrow>
          (case tarif_horaire clientData of
             None \<Rightarrow> (db, [ToastError TarifNonDefini])
           | Some tarifHoraireUtilise \<Rightarrow>
               (case update_eq_id (failing 1)
                       (\<lambda>p. p\<lparr>statut_validation := ''valide'',
                               tarif_horaire_utilise := Some tarifHoraireUtilise\<rparr>)
                       prestationId (prestations db) of
                  None \<Rightarrow> (db, [ToastError ErreurValidation])
                | Some t \<Rightarrow> (db\<lparr>prestations := t\<rparr>, [ToastSuccess]))))"

text \<open>The button "Valider" of a listed row \<open>p\<close> with key \<open>k\<close>.\<close>

definition onClick_Valider ::
  "(nat \<Rightarrow> bool) \<Rightarrow> string \<Rightarrow> prestation \<Rightarrow> database \<Rightarrow> database \<times> toast list" where
  "onClick_Valider failing k p db = handleValidate failing k (client_id p) db"

text \<open>
  The state of the dialog "Modifier la Prestation". A field of the update that is
  \<open>undefined\<close> is dropped from the update, a field that is \<open>null\<close> is written as \<open>null\<close>.
\<close>

datatype 'a js_field = Undefined | Null | Value 'a

record modal_state =
  modifiedDate :: "js_date option"
  modifiedHeureDebut :: string
  modifiedHeureFin :: string
  modifiedClientId :: "string option"
  modifiedProjectId :: "string js_field"
  modifiedAdresse :: string

record editing =
  editing_id :: string
  editing_client_id :: string

text \<open>
  \<open>cleanedUpdateData\<close> applied to a row, for a date \<open>d\<close> and a client \<open>c\<close> that are
  present: the status and \<open>tarif_horaire_utilise\<close> are not among its fields.
\<close>

definition cleanedUpdateData ::
  "modal_state \<Rightarrow> int \<Rightarrow> string \<Rightarrow> prestation \<Rightarrow> prestation" where
  "cleanedUpdateData m d c p =
     p\<lparr>date_prestation := d,
       heure_debut := modifiedHeureDebut m,
       heure_fin := modifiedHeureFin m,
       heures_calculees := heuresCalculeesFinal (modifiedHeureDebut m) (modifiedHeureFin m),
       client_id := c,
       project_id := (case modifiedProjectId m of
                        Undefined \<Rightarrow> project_id p
                      | Null \<Rightarrow> None
                      | Value j \<Rightarrow> Some j),
       adresse := modifiedAdresse m\<rparr>"

definition duration_warning :: "modal_state \<Rightarrow> toast list" where
  "duration_warning m =
     (if heuresCalculeesFinal (modifiedHeureDebut m) (modifiedHeureFin m) \<le> 0
      then [ToastWarning] else [])"

text \<open>\<open>handleSaveChanges\<close>. Request 0 is the update of the prestation.\<close>

definition handleSaveChanges ::
  "(nat \<Rightarrow> bool) \<Rightarrow> editing option \<Rightarrow> modal_state \<Rightarrow> database \<Rightarrow> database \<times> toast list" where
  "handleSaveChanges failing editingPrestation m db =
     (case editingPrestation of
        None \<Rightarrow> (db, [])
      | Some e \<Rightarrow>
          (case modifiedDate m of
             None \<Rightarrow> (db, duration_warning m @ [ToastError DateRequise])
           | Some date \<Rightarrow>
               (case modifiedClientId m of
                  None \<Rightarrow> (db, duration_warning m @ [ToastError ClientRequis])
                | Some c \<Rightarrow>
                    if c = [] then (db, duration_warning m @ [ToastError ClientRequis])
                    else
                      (case update_eq_id (failing 0) (cleanedUpdateData m (format_day date) c)
                              (editing_id e) (prestations db) of
                         None \<Rightarrow> (db, duration_warning m @ [ToastError ErreurSauvegarde])
                       | Some t \<Rightarrow>
                           (db\<lparr>prestations := t\<rparr>, duration_warning m @ [ToastSuccess])))))"

text \<open>
  \<open>handleSaveAndValidate\<close>. Request 0 is the update that saves the amendment, request 1
  reads the client's rate, request 2 writes the validation. Nothing undoes the first
  write when a later step throws.
\<close>

definition handleSaveAndValidate ::
  "(nat \<Rightarrow> bool) \<Rightarrow> editing option \<Rightarrow> modal_state \<Rightarrow> database \<Rightarrow> database \<times> toast list" where
  "handleSaveAndValidate failing editingPrestation m db =
     (case editingPrestation of
        None \<Rightarrow> (db, [])
      | Some e \<Rightarrow>
          (case (modifiedDate m, modifiedClientId m) of
             (Some date, Some c) \<Rightarrow>
               if c = [] then (db, duration_warning m @ [ToastError DateEtClientRequis])
               else
                 (case update_eq_id (failing 0) (cleanedUpdateData m (format_day date) c)
                         (editing_id e) (prestations db) of
                    None \<Rightarrow> (db, duration_warning m @ [ToastError ErreurSauvegarde])
                  | Some t \<Rightarrow>
                      (let saved = db\<lparr>prestations := t\<rparr>;
                           clientIdForValidation = (if c \<noteq> [] then c else editing_client_id e);
                           prestationIdForValidation = editing_id e
                       in (case select_single (failing 1) (clients saved) clientIdForValidation of
                            None \<Rightarrow>
                              (saved, duration_warning m @ [ToastInfo, ToastError ErreurRecuperationTarif])
                          | Some clientData \<Rightarrow>
                              (case tarif_horaire clientData of
                                 None \<Rightarrow>
                                   (saved, duration_warning m @ [ToastInfo, ToastError TarifNonDefini])
                               | Some tarifHoraireUtilise \<Rightarrow>
                                   (case update_eq_id (failing 2)
                                           (\<lambda>p. p\<lparr>statut_validation := ''valide'',
                                                   tarif_horaire_utilise := Some tarifHoraireUtilise\<rparr>)
                                           prestationIdForValidation (prestations saved) of
                                      None \<Rightarrow>
                                        (saved, duration_warning m @ [ToastInfo, ToastError ErreurValidation])
                                    | Some t' \<Rightarrow>
                                        (saved\<lparr>prestations := t'\<rparr>,
                                         duration_warning m @ [ToastInfo, ToastSuccess]))))))
           | _ \<Rightarrow> (db, duration_warning m @ [ToastError DateEtClientRequis])))"

section \<open>The pages that edit a client\<close>

text \<open>\<open>s.trim()\<close>, for the white space of \<open>is_ws\<close>.\<close>

definition trim :: "string \<Rightarrow> string" where
  "trim s = rev (dropWhile is_ws (rev (dropWhile is_ws s)))"

text \<open>\<open>x?.trim() || null\<close> of an optional text field.\<close>

definition trim_or_null :: "string js_field \<Rightarrow> string option" where
  "trim_or_null x =
     (case x of Value t \<Rightarrow> if trim t = [] then None else Some (trim t) | _ \<Rightarrow> None)"

text \<open>\<open>x || null\<close> of a text field.\<close>

definition or_null :: "string \<Rightarrow> string option" where
  "or_null x = (if x = [] then None else Some x)"

record client_form_data =
  formData_nom :: "string option"
  formData_adresse :: "string js_field"
  formData_email_facturation :: "string js_field"
  formData_telephone :: "string js_field"
  formData_tarif_horaire :: "rat js_field"

text \<open>
  \<open>handleUpdateClient\<close> of the page of the clients: one update of the table \<open>clients\<close>
  (request 0), whose \<open>tarif_horaire\<close> is dropped when the form holds \<open>undefined\<close>.
\<close>

definition handleUpdateClient ::
  "(nat \<Rightarrow> bool) \<Rightarrow> string option \<Rightarrow> client_form_data \<Rightarrow> database \<Rightarrow> database \<times> toast list" where
  "handleUpdateClient failing editingClient formData db =
     (case editingClient of
        None \<Rightarrow> (db, [ToastError AucunClientSelectionne])
      | Some k \<Rightarrow>
          (case formData_nom formData of
             None \<Rightarrow> (db, [ToastError NomObligatoire])
           | Some n \<Rightarrow>
               if n = [] \<or> trim n = [] then (db, [ToastError NomObligatoire])
               else
                 (case update_eq_id (failing 0)
                         (\<lambda>c. c\<lparr>nom := trim n,
                                 adresse_client := trim_or_null (formData_adresse formData),
                                 email_facturation := trim_or_null (formData_email_facturation formData),
                                 telephone := trim_or_null (formData_telephone formData),
                                 tarif_horaire := (case formData_tarif_horaire formData of
                                                     Undefined \<Rightarrow> tarif_horaire c
                                                   | Null \<Rightarrow> None
                                                   | Value r \<Rightarrow> Some r)\<rparr>)
                         k (clients db) of
                    None \<Rightarrow> (db, [ToastError ErreurMiseAJourClient])
                  | Some t \<Rightarrow> (db\<lparr>clients := t\<rparr>, [ToastSuccess]))))"

record edit_client_data =
  editClientData_nom :: string
  editClientData_adresse :: string
  editClientData_email_facturation :: string
  editClientData_telephone :: string
  editClientData_tarif_horaire :: "rat option"

text \<open>
  \<open>handleEditClientSubmit\<close> of the page of clients and projects; an empty rate field
  (\<open>""\<close>) is \<open>None\<close> and is refused.
\<close>

definition handleEditClientSubmit ::
  "(nat \<Rightarrow> bool) \<Rightarrow> string option \<Rightarrow> edit_client_data \<Rightarrow> database \<Rightarrow> database \<times> toast list" where
  "handleEditClientSubmit failing editingClient editClientData db =
     (case editingClient of
        None \<Rightarrow> (db, [])
      | Some k \<Rightarrow>
          (case editClientData_tarif_horaire editClientData of
             None \<Rightarrow> (db, [ToastError NomEtTarifObligatoires])
           | Some r \<Rightarrow>
               if editClientData_nom editClientData = [] then (db, [ToastError NomEtTarifObligatoires])
               else
                 (case update_eq_id (failing 0)
                         (\<lambda>c. c\<lparr>nom := editClientData_nom editClientData,
                                 adresse_client := or_null (editClientData_adresse editClientData),
                                 email_facturation := or_null (editClientData_email_facturation editClientData),
                                 telephone := or_null (editClientData_telephone editClientData),
                                 tarif_horaire := Some r\<rparr>)
                         k (clients db) of
                    None \<Rightarrow> (db, [ToastError ErreurMiseAJourClient])
                  | Some t \<Rightarrow> (db\<lparr>clients := t\<rparr>, [ToastSuccess]))))"

text \<open>A run of client updates, each through one of the two pages.\<close>

datatype client_update =
    ViaGestionClients "nat \<Rightarrow> bool" "string option" client_form_data
  | ViaClientsProjets "nat \<Rightarrow> bool" "string option" edit_client_data

fun client_updates :: "client_update list \<Rightarrow> database \<Rightarrow> database" where
  "client_updates [] db = db"
| "client_updates (ViaGestionClients failing k f # us) db =
     client_updates us (fst (handleUpdateClient failing k f db))"
| "client_updates (ViaClientsProjets failing k f # us) db =
     client_updates us (fst (handleEditClientSubmit failing k f db))"

section \<open>The authentication context\<close>

text \<open>
  What the request for the profile row gives the listener: an error, a row (its \<open>role\<close>
  and \<open>statut_validation\<close>, each possibly \<open>null\<close>), neither, or an exception.
\<close>

datatype profile_fetch =
    ProfileError
  | ProfileData "string option" "string option"
  | NoProfile
  | FetchThrows

definition validStatuses :: "string list" where
  "validStatuses = [''valide'', ''en_attente'', ''refuse'']"

definition finalStatus :: "string option \<Rightarrow> string" where
  "finalStatus sv =
     (case sv of
        None \<Rightarrow> ''inconnu''
      | Some v \<Rightarrow> if v \<noteq> [] \<and> v \<in> set validStatuses then v else ''inconnu'')"

definition fallbackUser :: "string \<Rightarrow> app_user" where
  "fallbackUser uid =
     \<lparr>user_ident = uid, role = ''collaborateur'', statut_validation_user = ''inconnu''\<rparr>"

text \<open>
  The listener of \<open>onAuthStateChange\<close>: the user it stores for a session (\<open>None\<close> is
  \<open>setUser(null)\<close>). \<open>newSession\<close> is the identifier of the session's user, if any.
\<close>

definition onAuthStateChange :: "string option \<Rightarrow> profile_fetch \<Rightarrow> app_user option" where
  "onAuthStateChange newSession fetch =
     (case newSession of
        None \<Rightarrow> None
      | Some uid \<Rightarrow>
          (case fetch of
             ProfileError \<Rightarrow> Some (fallbackUser uid)
           | ProfileData r sv \<Rightarrow>
               Some \<lparr>user_ident = uid,
                     role = (case r of
                               None \<Rightarrow> ''collaborateur''
                             | Some x \<Rightarrow> if x = [] then ''collaborateur'' else x),
                     statut_validation_user = finalStatus sv\<rparr>
           | NoProfile \<Rightarrow> Some (fallbackUser uid)
           | FetchThrows \<Rightarrow> Some (fallbackUser uid)))"

definition isAdmin :: "app_user option \<Rightarrow> bool" where
  "isAdmin user = (case user of None \<Rightarrow> False | Some u \<Rightarrow> role u = ''admin'')"

section \<open>The monthly invoice run\<close>

text \<open>
  Modelled from the spec: the handler of \<open>POST /routes/generate-monthly-invoices\<close>, which
  \<open>handleGenerateInvoices\<close> calls through \<open>brain.generate_monthly_invoices\<close>, is not among
  the sources. The definitions of this section follow sections 3 and 4.3 of the
  specification: the work entries and invoices of its data model, and the six steps of
  \<open>GenerateForPeriod\<close>.
\<close>

datatype entry_status = Pending | Validated

record work_entry =
  entry_id :: nat
  entry_client_id :: nat
  entry_month :: nat
  entry_year :: nat
  computed_hours :: rat
  status :: entry_status
  tariff_snapshot :: "rat option"
  invoiced :: bool

record invoice =
  invoice_id :: nat
  invoice_client_id :: nat
  period :: "nat \<times> nat"
  total_amount :: rat
  pdf_link :: "string option"

record store =
  entries :: "work_entry list"
  invoices :: "invoice list"

record generated =
  out_client_id :: nat
  out_total_amount :: rat
  out_invoice_id :: nat
  out_pdf_link :: "string option"

text \<open>Step 1: validated, not yet invoiced, dated in the period.\<close>

definition eligible :: "nat \<Rightarrow> nat \<Rightarrow> work_entry \<Rightarrow> bool" where
  "eligible m y e \<longleftrightarrow>
     status e = Validated \<and> \<not> invoiced e \<and> entry_month e = m \<and> entry_year e = y"

text \<open>Step 3: is there an invoice of the client for the period.\<close>

definition invoice_exists :: "invoice list \<Rightarrow> nat \<Rightarrow> nat \<Rightarrow> nat \<Rightarrow> bool" where
  "invoice_exists invs c m y \<longleftrightarrow>
     list_ex (\<lambda>i. invoice_client_id i = c \<and> period i = (m, y)) invs"

text \<open>
  Step 4: the total of a group. An entry without a snapshot adds nothing; the
  specification rules such an entry out among the validated ones.
\<close>

definition entry_amount :: "work_entry \<Rightarrow> rat" where
  "entry_amount e = computed_hours e * (case tariff_snapshot e of None \<Rightarrow> 0 | Some r \<Rightarrow> r)"

definition group_total :: "work_entry list \<Rightarrow> rat" where
  "group_total g = sum_list (map entry_amount g)"

definition fresh_invoice_id :: "invoice list \<Rightarrow> nat" where
  "fresh_invoice_id invs = Suc (fold max (map invoice_id invs) 0)"

definition in_group :: "nat \<Rightarrow> nat \<Rightarrow> nat \<Rightarrow> work_entry \<Rightarrow> bool" where
  "in_group m y c e \<longleftrightarrow> eligible m y e \<and> entry_client_id e = c"

text \<open>
  Steps 3 to 6 for the clients of the groups, one after the other. \<open>render\<close> is the
  external rendering and upload of step 5: the link of the document, or \<open>None\<close> when it
  fails, which leaves the invoice in place without a link.
\<close>

fun generate_clients ::
  "(invoice \<Rightarrow> string option) \<Rightarrow> nat \<Rightarrow> nat \<Rightarrow> nat list \<Rightarrow> store \<Rightarrow> store \<times> generated list" where
  "generate_clients render m y [] s = (s, [])"
| "generate_clients render m y (c # cs) s =
     (if invoice_exists (invoices s) c m y then generate_clients render m y cs s
      else
        (let created = \<lparr>invoice_id = fresh_invoice_id (invoices s), invoice_client_id = c,
                         period = (m, y),
                         total_amount = group_total (filter (in_group m y c) (entries s)),
                         pdf_link = None\<rparr>;
             linked = created\<lparr>pdf_link := render created\<rparr>;
             s' = \<lparr>entries = map (\<lambda>e. if in_group m y c e then e\<lparr>invoiced := True\<rparr> else e)
                                (entries s),
                   invoices = invoices s @ [linked]\<rparr>;
             rest = generate_clients render m y cs s'
         in (fst rest,
             \<lparr>out_client_id = c, out_total_amount = total_amount linked,
              out_invoice_id = invoice_id linked, out_pdf_link = pdf_link linked\<rparr> # snd rest)))"

text \<open>Steps 1 and 2, then the clients of the groups in the order of their first entry.\<close>

definition GenerateForPeriod ::
  "(invoice \<Rightarrow> string option) \<Rightarrow> nat \<Rightarrow> nat \<Rightarrow> store \<Rightarrow> store \<times> generated list" where
  "GenerateForPeriod render m y s =
     generate_clients render m y
       (remdups (map entry_client_id (filter (eligible m y) (entries s)))) s"

text \<open>The key under which at most one invoice may exist.\<close>

definition invoice_key :: "invoice \<Rightarrow> nat \<times> nat \<times> nat" where
  "invoice_key i = (invoice_client_id i, period i)"

text \<open>
  The entries whose amounts a run on \<open>s\<close> adds into the totals of the invoices it
  creates: the eligible entries of the clients that have no invoice for the period yet.
\<close>

definition billed :: "nat \<Rightarrow> nat \<Rightarrow> store \<Rightarrow> work_entry list" where
  "billed m y s =
     filter (\<lambda>e. eligible m y e \<and> \<not> invoice_exists (invoices s) (entry_client_id e) m y)
       (entries s)"

section \<open>Concrete data for the examples\<close>

definition no_failure :: "nat \<Rightarrow> bool" where
  "no_failure n = False"

definition client_at :: "rat option \<Rightarrow> client" where
  "client_at r =
     \<lparr>nom = ''Acme'', adresse_client = None, email_facturation = None, telephone = None,
      tarif_horaire = r\<rparr>"

definition entry_pending :: prestation where
  "entry_pending =
     \<lparr>date_prestation = 20000, heure_debut = ''09:00'', heure_fin = ''17:00'',
      heures_calculees = 8, adresse = ''Rue A'', statut_validation = ''en_attente'',
      tarif_horaire_utilise = None, client_id = ''c1'', project_id = Some ''j1'',
      user_id = ''u1''\<rparr>"

definition db_pending :: "rat option \<Rightarrow> database" where
  "db_pending r =
     \<lparr>clients = [''c1'' \<mapsto> client_at r], prestations = [''p1'' \<mapsto> entry_pending]\<rparr>"

definition db_validated :: database where
  "db_validated = fst (handleValidate no_failure ''p1'' ''c1'' (db_pending (Some 50)))"

definition form_rate_60 :: client_form_data where
  "form_rate_60 =
     \<lparr>formData_nom = Some ''Acme'', formData_adresse = Null,
      formData_email_facturation = Null, formData_telephone = Null,
      formData_tarif_horaire = Value 60\<rparr>"

definition db_rate_changed :: database where
  "db_rate_changed = fst (handleUpdateClient no_failure (Some ''c1'') form_rate_60 db_validated)"

definition editing_p1 :: editing where
  "editing_p1 = \<lparr>editing_id = ''p1'', editing_client_id = ''c1''\<rparr>"

definition modal_times :: "string \<Rightarrow> string \<Rightarrow> modal_state" where
  "modal_times debut fin =
     \<lparr>modifiedDate = Some 1728000000123, modifiedHeureDebut = debut, modifiedHeureFin = fin,
      modifiedClientId = Some ''c1'', modifiedProjectId = Undefined,
      modifiedAdresse = ''Rue B''\<rparr>"

definition user_valide :: app_user where
  "user_valide = \<lparr>user_ident = ''u1'', role = ''collaborateur'', statut_validation_user = ''valide''\<rparr>"

definition form_times :: "string \<Rightarrow> string \<Rightarrow> js_date option prestation_form" where
  "form_times debut fin =
     \<lparr>form_date_prestation = Some 1728000000123, form_heure_debut = debut,
      form_heure_fin = fin, form_client_id = ''c1'', form_project_id = ''j1'',
      form_adresse = ''Rue A''\<rparr>"

definition db_created :: "string \<Rightarrow> string \<Rightarrow> database" where
  "db_created debut fin =
     fst (handleSubmit (Some user_valide) no_failure ''p2'' (form_times debut fin)
            (db_pending (Some 50)))"

definition editing_p2 :: editing where
  "editing_p2 = \<lparr>editing_id = ''p2'', editing_client_id = ''c1''\<rparr>"

definition entry_march :: "nat \<Rightarrow> nat \<Rightarrow> rat \<Rightarrow> work_entry" where
  "entry_march k c h =
     \<lparr>entry_id = k, entry_client_id = c, entry_month = 3, entry_year = 2025,
      computed_hours = h, status = Validated, tariff_snapshot = Some 40, invoiced = False\<rparr>"

definition store_march :: store where
  "store_march =
     \<lparr>entries = [entry_march 1 7 3, entry_march 2 7 2, entry_march 3 8 1], invoices = []\<rparr>"

definition render_ok :: "invoice \<Rightarrow> string option" where
  "render_ok i = Some ''link''"

definition render_fails :: "invoice \<Rightarrow> string option" where
  "render_fails i = None"

text \<open>
  A list that has gone stale: the row was listed while its client was \<open>c2\<close> (rate 70);
  another administrator then amended the stored entry to the client \<open>c1\<close>, who has no
  rate.
\<close>

definition listed_row :: prestation where
  "listed_row = entry_pending\<lparr>client_id := ''c2''\<rparr>"

definition db_listed :: database where
  "db_listed =
     \<lparr>clients = [''c1'' \<mapsto> client_at None, ''c2'' \<mapsto> client_at (Some 70)],
      prestations = [''p1'' \<mapsto> listed_row]\<rparr>"

definition db_reassigned :: database where
  "db_reassigned =
     fst (handleSaveChanges no_failure (Some editing_p1) (modal_times ''09:00'' ''17:00'')
            db_listed)"

section \<open>Facts about the rows the handlers write\<close>

lemma statut_validation_update_same:
  "statut_validation p = v \<Longrightarrow> p\<lparr>statut_validation := v\<rparr> = p"
  by (cases p) simp

lemma cleanedUpdateData_keeps:
  "statut_validation (cleanedUpdateData m d c p) = statut_validation p"
  "tarif_horaire_utilise (cleanedUpdateData m d c p) = tarif_horaire_utilise p"
  "user_id (cleanedUpdateData m d c p) = user_id p"
  by (simp_all add: cleanedUpdateData_def)

lemma cleanedUpdateData_fields:
  "date_prestation (cleanedUpdateData m d c p) = d"
  "heure_debut (cleanedUpdateData m d c p) = modifiedHeureDebut m"
  "heure_fin (cleanedUpdateData m d c p) = modifiedHeureFin m"
  "heures_calculees (cleanedUpdateData m d c p) =
     heuresCalculeesFinal (modifiedHeureDebut m) (modifiedHeureFin m)"
  "client_id (cleanedUpdateData m d c p) = c"
  "adresse (cleanedUpdateData m d c p) = modifiedAdresse m"
  "project_id (cleanedUpdateData m d c p) =
     (case modifiedProjectId m of Undefined \<Rightarrow> project_id p | Null \<Rightarrow> None | Value j \<Rightarrow> Some j)"
  by (simp_all add: cleanedUpdateData_def)

lemma db_rate_changed_row:
  "prestations db_rate_changed ''p1'' =
     Some (entry_pending\<lparr>statut_validation := ''valide'', tarif_horaire_utilise := Some 50\<rparr>)"
  by (simp add: db_rate_changed_def db_validated_def db_pending_def handleValidate_def
      handleUpdateClient_def form_rate_60_def select_single_def update_eq_id_def
      no_failure_def client_at_def trim_def is_ws_def)

lemma db_rate_changed_client:
  "clients db_rate_changed ''c1'' = Some ((client_at (Some 50))\<lparr>tarif_horaire := Some 60\<rparr>)"
  by (simp add: db_rate_changed_def db_validated_def db_pending_def handleValidate_def
      handleUpdateClient_def form_rate_60_def select_single_def update_eq_id_def
      no_failure_def client_at_def trim_def is_ws_def trim_or_null_def)

lemma db_validated_row:
  "prestations db_validated ''p1'' =
     Some (entry_pending\<lparr>statut_validation := ''valide'', tarif_horaire_utilise := Some 50\<rparr>)"
  by (simp add: db_validated_def db_pending_def handleValidate_def select_single_def
      update_eq_id_def no_failure_def client_at_def)

section \<open>Validation\<close>

text \<open>
  Claim C8, as amended. \<open>handleValidate\<close> reads the rate of the client whose identifier
  it is given, which is the \<open>client_id\<close> of the row as the list shows it; it never reads
  the stored entry. When that client has no hourly rate, the handler reports an error
  (the one for the missing rate whenever the rate could be read at all) and the database
  is what it was, so a pending entry stays pending and its \<open>tarif_horaire_utilise\<close>
  stays \<open>null\<close>. Nothing is assumed of the stored entry or of its own client.
\<close>

theorem validate_without_rate:
  assumes "clients db (client_id p) = Some c"
    and "tarif_horaire c = None"
  shows "fst (onClick_Valider failing k p db) = db
       \<and> (\<exists>e. snd (onClick_Valider failing k p db) = [ToastError e])
       \<and> (\<not> failing 0 \<longrightarrow> snd (onClick_Valider failing k p db) = [ToastError TarifNonDefini])"
  using assms
  by (simp add: onClick_Valider_def handleValidate_def select_single_def)

theorem validate_without_rate_witness:
  "prestations (db_pending None) ''p1'' = Some entry_pending
   \<and> statut_validation entry_pending = ''en_attente''
   \<and> tarif_horaire_utilise entry_pending = None
   \<and> fst (onClick_Valider no_failure ''p1'' entry_pending (db_pending None)) = db_pending None
   \<and> snd (onClick_Valider no_failure ''p1'' entry_pending (db_pending None))
       = [ToastError TarifNonDefini]"
proof -
  have row: "prestations (db_pending None) ''p1'' = Some entry_pending"
    by (simp add: db_pending_def)
  have cl: "clients (db_pending None) (client_id entry_pending) = Some (client_at None)"
    by (simp add: db_pending_def entry_pending_def)
  have rate: "tarif_horaire (client_at None) = None"
    by (simp add: client_at_def)
  from validate_without_rate [OF cl rate, of no_failure "''p1''"] row
  show ?thesis by (simp add: no_failure_def entry_pending_def)
qed

text \<open>
  The claim as first stated, about the client the stored entry refers to, fails on a
  stale list: the stored entry is pending and its client \<open>c1\<close> has no rate, yet the
  button of the row still listed with the client \<open>c2\<close> validates it, at the rate 70 of
  \<open>c2\<close>.
\<close>

theorem validate_stale_row_counterexample:
  "map_option client_id (prestations db_reassigned ''p1'') = Some ''c1''
   \<and> map_option statut_validation (prestations db_reassigned ''p1'') = Some ''en_attente''
   \<and> map_option tarif_horaire_utilise (prestations db_reassigned ''p1'') = Some None
   \<and> map_option tarif_horaire (clients db_reassigned ''c1'') = Some None
   \<and> client_id listed_row = ''c2''
   \<and> snd (onClick_Valider no_failure ''p1'' listed_row db_reassigned) = [ToastSuccess]
   \<and> map_option statut_validation
        (prestations (fst (onClick_Valider no_failure ''p1'' listed_row db_reassigned)) ''p1'')
       = Some ''valide''
   \<and> map_option tarif_horaire_utilise
        (prestations (fst (onClick_Valider no_failure ''p1'' listed_row db_reassigned)) ''p1'')
       = Some (Some 70)"
  by code_simp

text \<open>
  Claim C1, as amended. \<open>handleValidate\<close> reads no status. On an entry that is already
  validated it does not answer with a conflict: when the client has a rate \<open>r\<close> and no
  request is refused, it succeeds again, the status stays \<open>valide\<close> and
  \<open>tarif_horaire_utilise\<close> is overwritten with \<open>r\<close>, the client's rate of that moment.
  The snapshot of the first validation is therefore kept only as long as the client's
  rate has not changed.
\<close>

theorem validate_again_overwrites:
  assumes "prestations db k = Some p"
    and "statut_validation p = ''valide''"
    and "clients db c = Some cl"
    and "tarif_horaire cl = Some r"
    and "\<not> failing 0" and "\<not> failing 1"
  shows "handleValidate failing k c db =
           (db\<lparr>prestations := (prestations db)(k \<mapsto> p\<lparr>tarif_horaire_utilise := Some r\<rparr>)\<rparr>,
            [ToastSuccess])"
  using assms
  by (simp add: handleValidate_def select_single_def update_eq_id_def
      statut_validation_update_same)

theorem validate_again_overwrites_witness:
  "map_option statut_validation (prestations db_rate_changed ''p1'') = Some ''valide''
   \<and> map_option tarif_horaire (clients db_rate_changed ''c1'') = Some (Some 60)
   \<and> handleValidate no_failure ''p1'' ''c1'' db_rate_changed =
        (db_rate_changed\<lparr>prestations := (prestations db_rate_changed)(''p1'' \<mapsto>
            entry_pending\<lparr>statut_validation := ''valide'', tarif_horaire_utilise := Some 60\<rparr>)\<rparr>,
         [ToastSuccess])"
proof -
  have "handleValidate no_failure ''p1'' ''c1'' db_rate_changed =
          (db_rate_changed\<lparr>prestations := (prestations db_rate_changed)(''p1'' \<mapsto>
             (entry_pending\<lparr>statut_validation := ''valide'', tarif_horaire_utilise := Some 50\<rparr>)
               \<lparr>tarif_horaire_utilise := Some 60\<rparr>)\<rparr>,
           [ToastSuccess])"
    using validate_again_overwrites [OF db_rate_changed_row _ db_rate_changed_client, of 60 no_failure]
    by (simp add: no_failure_def)
  then show ?thesis
    using db_rate_changed_row db_rate_changed_client by simp
qed

text \<open>
  The claim as first stated fails on this run: the entry is validated at the rate 50,
  the client's rate is changed to 60, and a second \<open>handleValidate\<close> reports success and
  leaves 60 in \<open>tarif_horaire_utilise\<close>.
\<close>

theorem validate_twice_counterexample:
  "map_option statut_validation (prestations db_rate_changed ''p1'') = Some ''valide''
   \<and> map_option tarif_horaire_utilise (prestations db_rate_changed ''p1'') = Some (Some 50)
   \<and> snd (handleValidate no_failure ''p1'' ''c1'' db_rate_changed) = [ToastSuccess]
   \<and> map_option tarif_horaire_utilise
        (prestations (fst (handleValidate no_failure ''p1'' ''c1'' db_rate_changed)) ''p1'')
      = Some (Some 60)"
  by code_simp

section \<open>Amendments\<close>

lemma handleSaveChanges_saves:
  assumes "prestations db (editing_id e) = Some p"
    and "modifiedDate m = Some d"
    and "modifiedClientId m = Some c" and "c \<noteq> []"
    and "\<not> failing 0"
  shows "handleSaveChanges failing (Some e) m db =
           (db\<lparr>prestations := (prestations db)(editing_id e \<mapsto> cleanedUpdateData m (format_day d) c p)\<rparr>,
            duration_warning m @ [ToastSuccess])"
  using assms
  by (simp add: handleSaveChanges_def update_eq_id_def)

lemma update_eq_id_alt:
  "update_eq_id fails f k t =
     (if fails then None else Some (\<lambda>j. if j = k then map_option f (t k) else t j))"
  by (auto simp: update_eq_id_def fun_eq_iff split: option.splits)

lemma handleSaveChanges_frame:
  "map_option tarif_horaire_utilise (prestations (fst (handleSaveChanges failing ed m db)) j)
     = map_option tarif_horaire_utilise (prestations db j)
   \<and> map_option statut_validation (prestations (fst (handleSaveChanges failing ed m db)) j)
     = map_option statut_validation (prestations db j)"
  by (simp add: handleSaveChanges_def cleanedUpdateData_keeps update_eq_id_alt
      option.map_comp comp_def split: option.splits)

lemma handleSaveAndValidate_after_save:
  assumes "prestations db (editing_id e) = Some p"
    and "handleSaveAndValidate failing (Some e) m db = (db', ts)"
    and "ToastInfo \<in> set ts"
  shows "\<exists>d c. modifiedDate m = Some d \<and> modifiedClientId m = Some c \<and> c \<noteq> [] \<and>
           (prestations db' (editing_id e) = Some (cleanedUpdateData m (format_day d) c p)
              \<and> (\<exists>err. ts = duration_warning m @ [ToastInfo, ToastError err])
            \<or> (\<exists>r. prestations db' (editing_id e)
                   = Some ((cleanedUpdateData m (format_day d) c p)
                            \<lparr>statut_validation := ''valide'', tarif_horaire_utilise := Some r\<rparr>))
              \<and> ts = duration_warning m @ [ToastInfo, ToastSuccess])"
  using assms
  by (auto simp: handleSaveAndValidate_def update_eq_id_def select_single_def Let_def
      duration_warning_def split: option.splits if_splits)

lemma heuresCalculeesFinal_not_after:
  assumes "parseTime debut = Some s" and "parseTime fin = Some t" and "\<not> t > s"
  shows "heuresCalculeesFinal debut fin = 0"
  using assms by (simp add: heuresCalculeesFinal_def)

lemma handleSaveAndValidate_saves:
  assumes "prestations db (editing_id e) = Some p"
    and "modifiedDate m = Some d"
    and "modifiedClientId m = Some c" and "c \<noteq> []"
    and "\<not> failing 0"
  shows "\<exists>x. snd (handleSaveAndValidate failing (Some e) m db) = duration_warning m @ [ToastInfo, x]"
    and "map_option heures_calculees
           (prestations (fst (handleSaveAndValidate failing (Some e) m db)) (editing_id e))
         = Some (heuresCalculeesFinal (modifiedHeureDebut m) (modifiedHeureFin m))"
  using assms
  by (simp_all add: handleSaveAndValidate_def update_eq_id_alt select_single_def Let_def
      cleanedUpdateData_fields split: option.splits)

text \<open>
  Claim C6, as amended. \<open>handleSaveChanges\<close> reads no status either. On a stored entry
  of any status, a validated one included, it succeeds as soon as a date and a client are
  given and the update is not refused: date, times, hours (always recomputed from the
  times of the dialog), client, project and address are overwritten, while
  \<open>statut_validation\<close> and \<open>tarif_horaire_utilise\<close> are left as they were.
\<close>

theorem amend_reads_no_status:
  assumes "prestations db (editing_id e) = Some p"
    and "modifiedDate m = Some d"
    and "modifiedClientId m = Some c" and "c \<noteq> []"
    and "\<not> failing 0"
  shows "handleSaveChanges failing (Some e) m db =
           (db\<lparr>prestations := (prestations db)(editing_id e \<mapsto> cleanedUpdateData m (format_day d) c p)\<rparr>,
            duration_warning m @ [ToastSuccess])
       \<and> heures_calculees (cleanedUpdateData m (format_day d) c p)
           = heuresCalculeesFinal (modifiedHeureDebut m) (modifiedHeureFin m)
       \<and> statut_validation (cleanedUpdateData m (format_day d) c p) = statut_validation p
       \<and> tarif_horaire_utilise (cleanedUpdateData m (format_day d) c p) = tarif_horaire_utilise p"
  using handleSaveChanges_saves [of db e p m d c failing] assms
  by (simp add: cleanedUpdateData_fields cleanedUpdateData_keeps)

theorem amend_reads_no_status_witness:
  "map_option statut_validation (prestations db_validated ''p1'') = Some ''valide''
   \<and> snd (handleSaveChanges no_failure (Some editing_p1) (modal_times ''10:00'' ''12:30'') db_validated)
       = [ToastSuccess]
   \<and> map_option adresse
        (prestations (fst (handleSaveChanges no_failure (Some editing_p1)
                             (modal_times ''10:00'' ''12:30'') db_validated)) ''p1'')
       = Some ''Rue B''
   \<and> map_option tarif_horaire_utilise
        (prestations (fst (handleSaveChanges no_failure (Some editing_p1)
                             (modal_times ''10:00'' ''12:30'') db_validated)) ''p1'')
       = Some (Some 50)"
proof -
  have row: "prestations db_validated (editing_id editing_p1) =
      Some (entry_pending\<lparr>statut_validation := ''valide'', tarif_horaire_utilise := Some 50\<rparr>)"
    using db_validated_row by (simp add: editing_p1_def)
  have warn: "duration_warning (modal_times ''10:00'' ''12:30'') = []"
    by code_simp
  from amend_reads_no_status [of db_validated editing_p1 _ "modal_times ''10:00'' ''12:30''"
      1728000000123 "''c1''" no_failure] row
  show ?thesis
    using db_validated_row warn
    by (simp add: modal_times_def no_failure_def editing_p1_def cleanedUpdateData_def)
qed

text \<open>
  The claim as first stated fails on an entry that is already validated: the amendment
  is reported as a success and the address and the hours of the entry are changed.
\<close>

theorem amend_validated_counterexample:
  "map_option statut_validation (prestations db_validated ''p1'') = Some ''valide''
   \<and> map_option adresse (prestations db_validated ''p1'') = Some ''Rue A''
   \<and> map_option heures_calculees (prestations db_validated ''p1'') = Some 8
   \<and> snd (handleSaveChanges no_failure (Some editing_p1) (modal_times ''10:00'' ''12:30'') db_validated)
       = [ToastSuccess]
   \<and> map_option adresse
        (prestations (fst (handleSaveChanges no_failure (Some editing_p1)
                             (modal_times ''10:00'' ''12:30'') db_validated)) ''p1'')
       = Some ''Rue B''
   \<and> map_option heures_calculees
        (prestations (fst (handleSaveChanges no_failure (Some editing_p1)
                             (modal_times ''10:00'' ''12:30'') db_validated)) ''p1'')
       = Some (5 / 2)"
  by code_simp

text \<open>
  Claim C7. In \<open>handleSaveAndValidate\<close>, when the amendment has been saved (the toast
  "Modifications enregistrees" was shown) and the validation then fails (no toast of
  success), the stored entry carries the amended date, times, hours, client, project and
  address, and its status and \<open>tarif_horaire_utilise\<close> are those it had before: a pending
  entry without a snapshot stays pending without a snapshot.
\<close>

theorem save_and_validate_not_rolled_back:
  assumes "prestations db (editing_id e) = Some p"
    and "handleSaveAndValidate failing (Some e) m db = (db', ts)"
    and "ToastInfo \<in> set ts"
    and "ToastSuccess \<notin> set ts"
  shows "\<exists>d c r err.
           modifiedDate m = Some d \<and> modifiedClientId m = Some c
         \<and> prestations db' (editing_id e) = Some r
         \<and> date_prestation r = format_day d
         \<and> heure_debut r = modifiedHeureDebut m
         \<and> heure_fin r = modifiedHeureFin m
         \<and> heures_calculees r = heuresCalculeesFinal (modifiedHeureDebut m) (modifiedHeureFin m)
         \<and> client_id r = c
         \<and> project_id r = (case modifiedProjectId m of
                              Undefined \<Rightarrow> project_id p | Null \<Rightarrow> None | Value j \<Rightarrow> Some j)
         \<and> adresse r = modifiedAdresse m
         \<and> statut_validation r = statut_validation p
         \<and> tarif_horaire_utilise r = tarif_horaire_utilise p
         \<and> last ts = ToastError err"
proof -
  from handleSaveAndValidate_after_save [OF assms(1-3)] assms(4)
  obtain d c err where dc: "modifiedDate m = Some d" "modifiedClientId m = Some c"
    and r: "prestations db' (editing_id e) = Some (cleanedUpdateData m (format_day d) c p)"
    and ts: "ts = duration_warning m @ [ToastInfo, ToastError err]"
    by (auto simp: duration_warning_def split: if_splits)
  show ?thesis
    using dc r ts by (simp add: cleanedUpdateData_fields cleanedUpdateData_keeps)
qed

theorem save_and_validate_not_rolled_back_witness:
  "prestations (db_pending None) ''p1'' = Some entry_pending
   \<and> snd (handleSaveAndValidate no_failure (Some editing_p1) (modal_times ''10:00'' ''12:30'')
            (db_pending None)) = [ToastInfo, ToastError TarifNonDefini]
   \<and> (\<exists>r. prestations (fst (handleSaveAndValidate no_failure (Some editing_p1)
                                 (modal_times ''10:00'' ''12:30'') (db_pending None))) ''p1'' = Some r
          \<and> adresse r = ''Rue B'' \<and> heure_debut r = ''10:00'' \<and> heure_fin r = ''12:30''
          \<and> statut_validation r = ''en_attente'' \<and> tarif_horaire_utilise r = None)"
proof -
  let ?h = "handleSaveAndValidate no_failure (Some editing_p1) (modal_times ''10:00'' ''12:30'')
              (db_pending None)"
  have row: "prestations (db_pending None) (editing_id editing_p1) = Some entry_pending"
    by (simp add: db_pending_def editing_p1_def)
  have ts: "snd ?h = [ToastInfo, ToastError TarifNonDefini]"
    by code_simp
  have pair: "?h = (fst ?h, snd ?h)" by simp
  from save_and_validate_not_rolled_back [OF row pair] ts
  show ?thesis
    using row by (auto simp: modal_times_def editing_p1_def entry_pending_def)
qed

text \<open>
  Claim C9. When the times of the dialog parse but the end is not after the start (an
  overnight span, or equal times), \<open>handleSaveChanges\<close> shows a warning and then
  succeeds, and the entry is stored with \<open>heures_calculees = 0\<close>; the save step of
  \<open>handleSaveAndValidate\<close> does the same before it goes on to the validation.
\<close>

theorem amend_invalid_duration_saves_zero:
  assumes "prestations db (editing_id e) = Some p"
    and "modifiedDate m = Some d"
    and "modifiedClientId m = Some c" and "c \<noteq> []"
    and "\<not> failing 0"
    and "parseTime (modifiedHeureDebut m) = Some s"
    and "parseTime (modifiedHeureFin m) = Some t"
    and "\<not> t > s"
  shows "handleSaveChanges failing (Some e) m db =
           (db\<lparr>prestations := (prestations db)(editing_id e \<mapsto> cleanedUpdateData m (format_day d) c p)\<rparr>,
            [ToastWarning, ToastSuccess])
       \<and> heures_calculees (cleanedUpdateData m (format_day d) c p) = 0
       \<and> map_option heures_calculees
            (prestations (fst (handleSaveAndValidate failing (Some e) m db)) (editing_id e)) = Some 0
       \<and> take 2 (snd (handleSaveAndValidate failing (Some e) m db)) = [ToastWarning, ToastInfo]"
proof -
  have z: "heuresCalculeesFinal (modifiedHeureDebut m) (modifiedHeureFin m) = 0"
    using assms(6-8) by (rule heuresCalculeesFinal_not_after)
  then have w: "duration_warning m = [ToastWarning]"
    by (simp add: duration_warning_def)
  from handleSaveAndValidate_saves(1) [of db e p m d c failing] assms(1-5) obtain x where
    x: "snd (handleSaveAndValidate failing (Some e) m db) = duration_warning m @ [ToastInfo, x]"
    by blast
  show ?thesis
    using handleSaveChanges_saves [of db e p m d c failing]
      handleSaveAndValidate_saves(2) [of db e p m d c failing] assms(1-5) x z w
    by (simp add: cleanedUpdateData_fields)
qed

theorem amend_invalid_duration_saves_zero_witness:
  "parseTime ''22:00'' = Some 22 \<and> parseTime ''02:00'' = Some 2
   \<and> snd (handleSaveChanges no_failure (Some editing_p1) (modal_times ''22:00'' ''02:00'')
            (db_pending (Some 50))) = [ToastWarning, ToastSuccess]
   \<and> map_option heures_calculees
        (prestations (fst (handleSaveChanges no_failure (Some editing_p1)
                             (modal_times ''22:00'' ''02:00'') (db_pending (Some 50)))) ''p1'') = Some 0
   \<and> map_option heures_calculees
        (prestations (fst (handleSaveAndValidate no_failure (Some editing_p1)
                             (modal_times ''22:00'' ''02:00'') (db_pending (Some 50)))) ''p1'') = Some 0"
proof -
  have row: "prestations (db_pending (Some 50)) (editing_id editing_p1) = Some entry_pending"
    by (simp add: db_pending_def editing_p1_def)
  have s: "parseTime (modifiedHeureDebut (modal_times ''22:00'' ''02:00'')) = Some 22"
    by code_simp
  have t: "parseTime (modifiedHeureFin (modal_times ''22:00'' ''02:00'')) = Some 2"
    by code_simp
  from amend_invalid_duration_saves_zero [of "db_pending (Some 50)" editing_p1 entry_pending
      "modal_times ''22:00'' ''02:00''" 1728000000123 "''c1''" no_failure 22 2] row s t
  show ?thesis
    by (simp add: modal_times_def no_failure_def editing_p1_def)
qed

section \<open>Changing a client's rate\<close>

lemma handleUpdateClient_prestations:
  "prestations (fst (handleUpdateClient failing k f db)) = prestations db"
  by (simp add: handleUpdateClient_def split: option.splits)

lemma handleEditClientSubmit_prestations:
  "prestations (fst (handleEditClientSubmit failing k f db)) = prestations db"
  by (simp add: handleEditClientSubmit_def split: option.splits)

lemma client_updates_prestations:
  "prestations (client_updates us db) = prestations db"
proof (induction us arbitrary: db)
  case Nil
  show ?case by simp
next
  case (Cons u us)
  show ?case
    by (cases u) (simp_all add: Cons.IH handleUpdateClient_prestations
        handleEditClientSubmit_prestations)
qed

lemma handleValidate_success:
  assumes "handleValidate failing k c db = (db1, [ToastSuccess])"
    and "prestations db k = Some p"
    and "clients db c = Some cl"
  shows "\<exists>r. tarif_horaire cl = Some r
           \<and> prestations db1 k
               = Some (p\<lparr>statut_validation := ''valide'', tarif_horaire_utilise := Some r\<rparr>)"
  using assms
  by (auto simp: handleValidate_def select_single_def update_eq_id_alt
      split: option.splits if_splits)

text \<open>
  Claim C2. The pages that edit a client write the table \<open>clients\<close> only. Once an entry
  has been validated at the client's rate \<open>r\<close>, no run of client updates changes the
  table of the prestations: read again, the entry is still \<open>valide\<close> and its
  \<open>tarif_horaire_utilise\<close> is still \<open>r\<close>. Validated at 50, it shows 50 after the client's
  rate has become 60.
\<close>

theorem rate_change_keeps_snapshot:
  assumes "handleValidate failing k c db = (db1, [ToastSuccess])"
    and "prestations db k = Some p"
    and "clients db c = Some cl"
    and "tarif_horaire cl = Some r"
  shows "prestations (client_updates us db1) = prestations db1
       \<and> map_option statut_validation (prestations (client_updates us db1) k) = Some ''valide''
       \<and> map_option tarif_horaire_utilise (prestations (client_updates us db1) k) = Some (Some r)"
  using handleValidate_success [OF assms(1-3)] assms(4)
  by (auto simp: client_updates_prestations)

theorem rate_change_keeps_snapshot_witness:
  "map_option tarif_horaire (clients (db_pending (Some 50)) ''c1'') = Some (Some 50)
   \<and> snd (handleValidate no_failure ''p1'' ''c1'' (db_pending (Some 50))) = [ToastSuccess]
   \<and> map_option tarif_horaire
        (clients (client_updates [ViaGestionClients no_failure (Some ''c1'') form_rate_60]
                    db_validated) ''c1'') = Some (Some 60)
   \<and> map_option tarif_horaire_utilise
        (prestations (client_updates [ViaGestionClients no_failure (Some ''c1'') form_rate_60]
                        db_validated) ''p1'') = Some (Some 50)"
proof -
  have v: "handleValidate no_failure ''p1'' ''c1'' (db_pending (Some 50))
             = (db_validated, [ToastSuccess])"
    by (simp add: db_validated_def handleValidate_def select_single_def update_eq_id_def
        db_pending_def client_at_def no_failure_def)
  have row: "prestations (db_pending (Some 50)) ''p1'' = Some entry_pending"
    by (simp add: db_pending_def)
  have cl: "clients (db_pending (Some 50)) ''c1'' = Some (client_at (Some 50))"
    by (simp add: db_pending_def)
  have rate: "tarif_horaire (client_at (Some 50)) = Some 50"
    by (simp add: client_at_def)
  have changed: "map_option tarif_horaire
        (clients (client_updates [ViaGestionClients no_failure (Some ''c1'') form_rate_60]
                    db_validated) ''c1'') = Some (Some 60)"
    using db_rate_changed_client by (simp add: db_rate_changed_def)
  from rate_change_keeps_snapshot [OF v row cl rate,
      of "[ViaGestionClients no_failure (Some ''c1'') form_rate_60]"] v cl rate changed
  show ?thesis by auto
qed

section \<open>The user of the authentication context\<close>

text \<open>
  Claim C10. Every user the listener stores has a \<open>statut_validation\<close> among
  \<open>valide\<close>, \<open>en_attente\<close>, \<open>refuse\<close> and \<open>inconnu\<close>; a status of the profile row that is
  none of the first three, or \<open>null\<close>, becomes \<open>inconnu\<close>; and when the request for the
  profile gives an error, no row, or throws, the user is \<open>inconnu\<close> with the role
  \<open>collaborateur\<close>, so \<open>isAdmin\<close> is false.
\<close>

theorem auth_user_closed_status:
  assumes "onAuthStateChange newSession fetch = Some u"
  shows "statut_validation_user u \<in> {''valide'', ''en_attente'', ''refuse'', ''inconnu''}
       \<and> (\<forall>r sv. fetch = ProfileData r sv
                  \<and> sv \<notin> {Some ''valide'', Some ''en_attente'', Some ''refuse''}
              \<longrightarrow> statut_validation_user u = ''inconnu'')
       \<and> (fetch = ProfileError \<or> fetch = NoProfile \<or> fetch = FetchThrows
              \<longrightarrow> statut_validation_user u = ''inconnu'' \<and> role u = ''collaborateur''
                  \<and> \<not> isAdmin (Some u))"
  using assms
  by (cases fetch)
     (auto simp: onAuthStateChange_def fallbackUser_def finalStatus_def validStatuses_def
        isAdmin_def split: option.splits if_splits)

theorem auth_user_closed_status_witness:
  "onAuthStateChange (Some ''u1'') ProfileError = Some (fallbackUser ''u1'')
   \<and> statut_validation_user (fallbackUser ''u1'') = ''inconnu''
   \<and> role (fallbackUser ''u1'') = ''collaborateur''
   \<and> \<not> isAdmin (Some (fallbackUser ''u1''))"
proof -
  have h: "onAuthStateChange (Some ''u1'') ProfileError = Some (fallbackUser ''u1'')"
    by (simp add: onAuthStateChange_def)
  from auth_user_closed_status [OF h] h show ?thesis by simp
qed

section \<open>The computation of the hours\<close>

lemma is_digit_cases:
  "is_digit c \<longleftrightarrow> c = CHR ''0'' \<or> c = CHR ''1'' \<or> c = CHR ''2'' \<or> c = CHR ''3'' \<or> c = CHR ''4''
     \<or> c = CHR ''5'' \<or> c = CHR ''6'' \<or> c = CHR ''7'' \<or> c = CHR ''8'' \<or> c = CHR ''9''"
  by (auto simp: is_digit_def)

lemma digit_value_le: "is_digit c \<Longrightarrow> digit_value c \<le> 9"
  by (auto simp: is_digit_cases digit_value_def)

lemma digit_not_colon: "is_digit c \<Longrightarrow> c \<noteq> CHR '':''"
  by (auto simp: is_digit_cases)

lemma split_colon_hhmm:
  assumes "is_digit a" "is_digit b" "is_digit d" "is_digit e"
  shows "split_colon [a, b, CHR '':'', d, e] = [[a, b], [d, e]]"
  using assms by (simp add: digit_not_colon)

lemma Number_digits_two:
  assumes "is_digit a" "is_digit b"
  shows "Number_digits [a, b] = Some (int (digit_value a * 10 + digit_value b))"
  using assms by (simp add: Number_digits_def digits_value_def)

lemma heure_regex_parts:
  assumes "heure_regex s"
  obtains a b d e where "s = [a, b, CHR '':'', d, e]"
    and "is_digit a" "is_digit b" "is_digit d" "is_digit e"
    and "digit_value a * 10 + digit_value b < 24" and "digit_value d \<le> 5"
proof -
  from assms obtain a b c d e where s: "s = [a, b, c, d, e]"
    by (auto simp: heure_regex_def split: list.splits)
  from assms s have c: "c = CHR '':''" and d: "d \<in> set ''012345''" and e: "is_digit e"
    and ab: "(a \<in> set ''01'' \<and> is_digit b) \<or> (a = CHR ''2'' \<and> b \<in> set ''0123'')"
    by (simp_all add: heure_regex_def)
  from d have d': "is_digit d" "digit_value d \<le> 5"
    by (auto simp: is_digit_def digit_value_def)
  from ab have ab': "is_digit a" "is_digit b" "digit_value a * 10 + digit_value b < 24"
  proof -
    from ab show "is_digit a" by (auto simp: is_digit_def)
    from ab show "is_digit b" by (auto simp: is_digit_def)
    from ab show "digit_value a * 10 + digit_value b < 24"
    proof
      assume h: "a \<in> set ''01'' \<and> is_digit b"
      then have "digit_value a \<le> 1" by (auto simp: digit_value_def)
      moreover from h have "digit_value b \<le> 9" by (simp add: digit_value_le)
      ultimately show ?thesis by arith
    next
      assume h: "a = CHR ''2'' \<and> b \<in> set ''0123''"
      then have "digit_value a = 2" by (simp add: digit_value_def)
      moreover from h have "digit_value b \<le> 3" by (auto simp: digit_value_def)
      ultimately show ?thesis by arith
    qed
  qed
  show thesis
    using that [of a b d e] s c d' e ab' by simp
qed

lemma heure_regex_split:
  assumes "heure_regex s"
  obtains h m where "split_map_Number s = Some (h, m)"
    and "0 \<le> h" "h < 24" "0 \<le> m" "m < 60"
proof -
  from assms obtain a b d e where s: "s = [a, b, CHR '':'', d, e]"
    and dg: "is_digit a" "is_digit b" "is_digit d" "is_digit e"
    and hh: "digit_value a * 10 + digit_value b < 24" and dd: "digit_value d \<le> 5"
    by (rule heure_regex_parts)
  have sp: "split_map_Number s
              = Some (int (digit_value a * 10 + digit_value b), int (digit_value d * 10 + digit_value e))"
    unfolding split_map_Number_def s split_colon_hhmm [OF dg]
    by (simp add: Number_digits_two dg)
  have "digit_value e \<le> 9" using dg(4) by (rule digit_value_le)
  with dd have mm: "digit_value d * 10 + digit_value e < 60" by arith
  show thesis
    using that [OF sp] hh mm by simp
qed

lemma refine_heures_never_rejects:
  assumes "heure_regex debut" and "heure_regex fin"
  shows "refine_heures debut fin = Some True"
proof -
  from assms(1) obtain sh sm where s: "split_map_Number debut = Some (sh, sm)"
    and sb: "0 \<le> sh" "sh < 24" "0 \<le> sm" "sm < 60" by (rule heure_regex_split)
  from assms(2) obtain eh em where e: "split_map_Number fin = Some (eh, em)"
    and eb: "0 \<le> eh" "eh < 24" "0 \<le> em" "em < 60" by (rule heure_regex_split)
  show ?thesis
    using s e sb eb by (simp add: refine_heures_def Let_def)
qed

lemma calculate_hours_valid:
  assumes "heure_regex debut" and "heure_regex fin"
  shows "calculate_hours date debut fin =
           Some (toFixed2 (of_int (if clock_minutes fin \<le> clock_minutes debut
                                   then 1440 - clock_minutes debut + clock_minutes fin
                                   else clock_minutes fin - clock_minutes debut) / 60))"
proof -
  from assms(1) obtain sh sm where s: "split_map_Number debut = Some (sh, sm)"
    by (rule heure_regex_split)
  from assms(2) obtain eh em where e: "split_map_Number fin = Some (eh, em)"
    by (rule heure_regex_split)
  have cs: "clock_minutes debut = sh * 60 + sm" using s by (simp add: clock_minutes_def)
  have ce: "clock_minutes fin = eh * 60 + em" using e by (simp add: clock_minutes_def)
  let ?start = "setHours date sh sm" and ?end = "setHours date eh em"
  have cmp: "?end \<le> ?start \<longleftrightarrow> eh * 60 + em \<le> sh * 60 + sm"
    by (simp add: setHours_def) arith
  have unfolded: "calculate_hours date debut fin =
      Some (toFixed2 (of_int ((if ?end \<le> ?start then nextDay ?end else ?end) - ?start)
                        / (1000 * 60 * 60)))"
    unfolding calculate_hours_def s e by (simp only: Let_def option.case prod.case)
  have d1: "(of_int (nextDay ?end - ?start) :: rat) / (1000 * 60 * 60)
              = of_int (1440 - (sh * 60 + sm) + (eh * 60 + em)) / 60"
    by (simp add: setHours_def nextDay_def field_simps)
  have d2: "(of_int (?end - ?start) :: rat) / (1000 * 60 * 60)
              = of_int ((eh * 60 + em) - (sh * 60 + sm)) / 60"
    by (simp add: setHours_def field_simps)
  show ?thesis
  proof (cases "eh * 60 + em \<le> sh * 60 + sm")
    case True
    with cmp have "?end \<le> ?start" by simp
    then show ?thesis
      unfolding unfolded cs ce using True by (simp only: if_True d1)
  next
    case False
    with cmp have "\<not> ?end \<le> ?start" by simp
    then show ?thesis
      unfolding unfolded cs ce using False by (simp only: if_False d2)
  qed
qed


lemma parseInt_two_digits:
  assumes "is_digit a" "is_digit b"
  shows "parseInt [a, b] = Some (int (digit_value a * 10 + digit_value b))"
proof -
  have nws: "\<not> is_ws a" using assms(1) by (auto simp: is_digit_cases is_ws_def)
  have nsign: "a \<noteq> CHR ''-''" "a \<noteq> CHR ''+''" using assms(1) by (auto simp: is_digit_cases)
  show ?thesis
    using assms nws nsign by (simp add: parseInt_def Let_def digits_value_def)
qed

lemma parseTime_valid:
  assumes "heure_regex s"
  shows "parseTime s = Some (of_int (clock_minutes s) / 60)"
proof -
  from assms obtain a b d e where s: "s = [a, b, CHR '':'', d, e]"
    and dg: "is_digit a" "is_digit b" "is_digit d" "is_digit e"
    by (rule heure_regex_parts)
  have sp: "split_colon s = [[a, b], [d, e]]"
    unfolding s by (rule split_colon_hhmm [OF dg])
  have cm: "clock_minutes s
              = int (digit_value a * 10 + digit_value b) * 60 + int (digit_value d * 10 + digit_value e)"
    unfolding clock_minutes_def split_map_Number_def sp
    by (simp add: Number_digits_two dg)
  have "parseTime s = Some (of_int (int (digit_value a * 10 + digit_value b))
                            + of_int (int (digit_value d * 10 + digit_value e)) / 60)"
    unfolding parseTime_def sp using s
    by (simp add: parseInt_two_digits dg)
  also have "\<dots> = Some (of_int (clock_minutes s) / 60)"
    unfolding cm by (simp add: field_simps)
  finally show ?thesis .
qed

lemma heuresCalculeesFinal_valid:
  assumes "heure_regex debut" and "heure_regex fin"
  shows "heuresCalculeesFinal debut fin =
           (if clock_minutes fin > clock_minutes debut
            then of_int (clock_minutes fin - clock_minutes debut) / 60 else 0)"
  using parseTime_valid [OF assms(1)] parseTime_valid [OF assms(2)]
  by (simp add: heuresCalculeesFinal_def field_simps)

lemma heuresCalculeesDisplay_zero:
  "heuresCalculeesFinal debut fin = 0 \<Longrightarrow> heuresCalculeesDisplay debut fin = 0"
  by (auto simp: heuresCalculeesFinal_def heuresCalculeesDisplay_def
      split: option.splits if_splits)

lemma toFixed2_day: "toFixed2 24 = 24"
  by code_simp

text \<open>
  Claim C4. For times that the schema accepts and an end before the start, the
  collaborator's \<open>onSubmit\<close> stores \<open>(1440 - start + end) / 60\<close> hours, rounded to two
  decimals, on every date: 4.00 for 22:00 to 02:00. The recomputation of the
  administrator's dialog does not: \<open>heuresCalculeesFinal\<close>, which \<open>handleSaveChanges\<close> and
  \<open>handleSaveAndValidate\<close> store, and the hours the dialog displays are 0 for the same
  times, so saving an amendment of an overnight entry replaces its hours by 0.
\<close>

theorem overnight_amended_to_zero:
  assumes "heure_regex debut" and "heure_regex fin"
    and "clock_minutes fin < clock_minutes debut"
  shows "calculate_hours date debut fin
           = Some (toFixed2 (of_int (1440 - clock_minutes debut + clock_minutes fin) / 60))
       \<and> heuresCalculeesFinal debut fin = 0
       \<and> heuresCalculeesDisplay debut fin = 0"
proof -
  have z: "heuresCalculeesFinal debut fin = 0"
    using heuresCalculeesFinal_valid [OF assms(1,2)] assms(3) by simp
  show ?thesis
    using calculate_hours_valid [OF assms(1,2), of date] assms(3) z
      heuresCalculeesDisplay_zero [OF z]
    by simp
qed

theorem overnight_amended_to_zero_witness:
  "heure_regex ''22:00'' \<and> heure_regex ''02:00''
   \<and> clock_minutes ''22:00'' = 1320 \<and> clock_minutes ''02:00'' = 120
   \<and> map_option heures_calculees (prestations (db_created ''22:00'' ''02:00'') ''p2'') = Some 4
   \<and> calculate_hours 1728000000123 ''22:00'' ''02:00'' = Some 4
   \<and> heuresCalculeesFinal ''22:00'' ''02:00'' = 0
   \<and> map_option heures_calculees
        (prestations (fst (handleSaveChanges no_failure (Some editing_p2)
                             (modal_times ''22:00'' ''02:00'') (db_created ''22:00'' ''02:00''))) ''p2'')
       = Some 0"
proof -
  have r1: "heure_regex ''22:00''" by code_simp
  have r2: "heure_regex ''02:00''" by code_simp
  have c1: "clock_minutes ''22:00'' = 1320" by code_simp
  have c2: "clock_minutes ''02:00'' = 120" by code_simp
  have lt: "clock_minutes ''02:00'' < clock_minutes ''22:00''" unfolding c1 c2 by simp
  have four: "toFixed2 (of_int (1440 - 1320 + 120) / 60) = 4" by code_simp
  have created: "map_option heures_calculees (prestations (db_created ''22:00'' ''02:00'') ''p2'') = Some 4"
    by code_simp
  have saved: "map_option heures_calculees
        (prestations (fst (handleSaveChanges no_failure (Some editing_p2)
                             (modal_times ''22:00'' ''02:00'') (db_created ''22:00'' ''02:00''))) ''p2'')
       = Some 0"
    by code_simp
  from overnight_amended_to_zero [OF r1 r2 lt, of 1728000000123]
  have "calculate_hours 1728000000123 ''22:00'' ''02:00'' = Some 4
        \<and> heuresCalculeesFinal ''22:00'' ''02:00'' = 0"
    unfolding c1 c2 four by simp
  then show ?thesis
    using r1 r2 c1 c2 created saved by simp
qed

text \<open>
  Claim C5. Equal start and end times are not refused. The refinement of the schema adds
  a day to an end that is not after the start and only then asks whether the end is
  after the start, which always holds; \<open>onSubmit\<close> then stores 24 hours. The
  administrator's dialog stores 0 for the same times.
\<close>

theorem equal_times_accepted_as_day:
  assumes "heure_regex t"
  shows "refine_heures t t = Some True
       \<and> calculate_hours date t t = Some 24
       \<and> heuresCalculeesFinal t t = 0"
  using refine_heures_never_rejects [OF assms assms] calculate_hours_valid [OF assms assms, of date]
    heuresCalculeesFinal_valid [OF assms assms]
  by (simp add: toFixed2_day)

theorem equal_times_accepted_as_day_witness:
  "heure_regex ''09:00''
   \<and> prestationSchema (form_times ''09:00'' ''09:00'') \<noteq> None
   \<and> calculate_hours 1728000000123 ''09:00'' ''09:00'' = Some 24
   \<and> map_option heures_calculees (prestations (db_created ''09:00'' ''09:00'') ''p2'') = Some 24"
proof -
  have r: "heure_regex ''09:00''" by code_simp
  have acc: "prestationSchema (form_times ''09:00'' ''09:00'') \<noteq> None" by code_simp
  have st: "map_option heures_calculees (prestations (db_created ''09:00'' ''09:00'') ''p2'') = Some 24"
    by code_simp
  from equal_times_accepted_as_day [OF r, of 1728000000123] r acc st
  show ?thesis by simp
qed

section \<open>The invoice run: one invoice for a client and a period\<close>

lemma invoice_exists_append:
  "invoice_exists (invs @ [i]) c m y \<longleftrightarrow>
     invoice_exists invs c m y \<or> (invoice_client_id i = c \<and> period i = (m, y))"
  by (auto simp: invoice_exists_def list_ex_iff)

lemma invoice_exists_key:
  "invoice_exists invs c m y \<longleftrightarrow> (c, m, y) \<in> set (map invoice_key invs)"
  by (auto simp: invoice_exists_def list_ex_iff invoice_key_def image_iff)

lemma eligible_invoiced: "\<not> eligible m y (e\<lparr>invoiced := True\<rparr>)"
  by (simp add: eligible_def)

lemma generate_clients_skip_all:
  "(\<forall>c \<in> set cs. invoice_exists (invoices s) c m y)
     \<Longrightarrow> generate_clients render m y cs s = (s, [])"
  by (induction cs) simp_all

lemma generate_clients_invoices_mono:
  "invoice_exists (invoices s) c m y
     \<Longrightarrow> invoice_exists (invoices (fst (generate_clients render m y cs s))) c m y"
proof (induction cs arbitrary: s)
  case Nil
  then show ?case by simp
next
  case (Cons k cs)
  show ?case
  proof (cases "invoice_exists (invoices s) k m y")
    case True
    then show ?thesis using Cons by simp
  next
    case False
    then show ?thesis
      using Cons.prems
      by (simp add: Let_def Cons.IH invoice_exists_append)
  qed
qed

lemma generate_clients_distinct:
  "distinct (map invoice_key (invoices s))
     \<Longrightarrow> distinct (map invoice_key (invoices (fst (generate_clients render m y cs s))))"
proof (induction cs arbitrary: s)
  case Nil
  then show ?case by simp
next
  case (Cons k cs)
  show ?case
  proof (cases "invoice_exists (invoices s) k m y")
    case True
    then show ?thesis using Cons by simp
  next
    case False
    define created where "created =
      \<lparr>invoice_id = fresh_invoice_id (invoices s), invoice_client_id = k, period = (m, y),
       total_amount = group_total (filter (in_group m y k) (entries s)), pdf_link = None\<rparr>"
    define s' where "s' =
      \<lparr>entries = map (\<lambda>e. if in_group m y k e then e\<lparr>invoiced := True\<rparr> else e) (entries s),
       invoices = invoices s @ [created\<lparr>pdf_link := render created\<rparr>]\<rparr>"
    have step: "fst (generate_clients render m y (k # cs) s)
                  = fst (generate_clients render m y cs s')"
      using False by (simp add: Let_def s'_def created_def)
    have "(k, m, y) \<notin> set (map invoice_key (invoices s))"
      using False by (simp add: invoice_exists_key)
    moreover have "invoice_key (created\<lparr>pdf_link := render created\<rparr>) = (k, m, y)"
      by (simp add: invoice_key_def created_def)
    ultimately have "distinct (map invoice_key (invoices s'))"
      using Cons.prems by (simp add: s'_def)
    then show ?thesis
      unfolding step by (rule Cons.IH)
  qed
qed

lemma generate_clients_entries:
  "entries (fst (generate_clients render m y cs s)) =
     map (\<lambda>e. if eligible m y e \<and> entry_client_id e \<in> set cs
                    \<and> \<not> invoice_exists (invoices s) (entry_client_id e) m y
               then e\<lparr>invoiced := True\<rparr> else e)
       (entries s)"
proof (induction cs arbitrary: s)
  case Nil
  show ?case by (simp add: map_idI)
next
  case (Cons k cs)
  show ?case
  proof (cases "invoice_exists (invoices s) k m y")
    case True
    have "entries (fst (generate_clients render m y (k # cs) s))
            = entries (fst (generate_clients render m y cs s))"
      using True by simp
    also have "\<dots> = map (\<lambda>e. if eligible m y e \<and> entry_client_id e \<in> set cs
                    \<and> \<not> invoice_exists (invoices s) (entry_client_id e) m y
               then e\<lparr>invoiced := True\<rparr> else e) (entries s)"
      by (rule Cons.IH)
    also have "\<dots> = map (\<lambda>e. if eligible m y e \<and> entry_client_id e \<in> set (k # cs)
                    \<and> \<not> invoice_exists (invoices s) (entry_client_id e) m y
               then e\<lparr>invoiced := True\<rparr> else e) (entries s)"
      using True by (intro map_cong) auto
    finally show ?thesis .
  next
    case False
    show ?thesis
      using False
      by (simp add: Let_def Cons.IH invoice_exists_append in_group_def eligible_invoiced
          cong: map_cong)
        (auto simp: eligible_def)
  qed
qed


lemma sum_list_filter_split:
  "(\<forall>x \<in> set xs. \<not> (P x \<and> Q x))
     \<Longrightarrow> sum_list (map f (filter (\<lambda>x. P x \<or> Q x) xs))
         = sum_list (map f (filter P xs)) + (sum_list (map f (filter Q xs)) :: rat)"
  by (induction xs) auto

lemma generate_clients_totals:
  "distinct cs
     \<Longrightarrow> sum_list (map out_total_amount (snd (generate_clients render m y cs s)))
         = group_total (filter (\<lambda>e. eligible m y e \<and> entry_client_id e \<in> set cs
                                    \<and> \<not> invoice_exists (invoices s) (entry_client_id e) m y)
                          (entries s))"
proof (induction cs arbitrary: s)
  case Nil
  show ?case by (simp add: group_total_def)
next
  case (Cons k cs)
  from Cons.prems have k: "k \<notin> set cs" and dcs: "distinct cs" by simp_all
  show ?case
  proof (cases "invoice_exists (invoices s) k m y")
    case True
    have "filter (\<lambda>e. eligible m y e \<and> entry_client_id e \<in> set (k # cs)
                        \<and> \<not> invoice_exists (invoices s) (entry_client_id e) m y) (entries s)
          = filter (\<lambda>e. eligible m y e \<and> entry_client_id e \<in> set cs
                        \<and> \<not> invoice_exists (invoices s) (entry_client_id e) m y) (entries s)"
      using True by (intro filter_cong) auto
    then show ?thesis
      using True Cons.IH [OF dcs, of s] by simp
  next
    case False
    define created where "created =
      \<lparr>invoice_id = fresh_invoice_id (invoices s), invoice_client_id = k, period = (m, y),
       total_amount = group_total (filter (in_group m y k) (entries s)), pdf_link = None\<rparr>"
    define mark where "mark = (\<lambda>e. if in_group m y k e then e\<lparr>invoiced := True\<rparr> else e)"
    define s' where "s' =
      \<lparr>entries = map mark (entries s),
       invoices = invoices s @ [created\<lparr>pdf_link := render created\<rparr>]\<rparr>"
    define Q where "Q = (\<lambda>e. eligible m y e \<and> entry_client_id e \<in> set cs
                        \<and> \<not> invoice_exists (invoices s) (entry_client_id e) m y)"
    have step: "snd (generate_clients render m y (k # cs) s)
                  = \<lparr>out_client_id = k,
                     out_total_amount = group_total (filter (in_group m y k) (entries s)),
                     out_invoice_id = fresh_invoice_id (invoices s),
                     out_pdf_link = render created\<rparr>
                    # snd (generate_clients render m y cs s')"
      using False by (simp add: Let_def s'_def created_def mark_def)
    have ex': "invoice_exists (invoices s @ [created\<lparr>pdf_link := render created\<rparr>]) c m y
                 \<longleftrightarrow> invoice_exists (invoices s) c m y \<or> c = k" for c
      by (auto simp: invoice_exists_append created_def)
    have same: "filter (\<lambda>e. eligible m y e \<and> entry_client_id e \<in> set cs
                        \<and> \<not> invoice_exists (invoices s') (entry_client_id e) m y) (entries s')
                = filter Q (entries s)"
    proof -
      have "filter (\<lambda>e. eligible m y e \<and> entry_client_id e \<in> set cs
                        \<and> \<not> invoice_exists (invoices s') (entry_client_id e) m y) (entries s')
            = map mark (filter Q (entries s))"
        unfolding s'_def store.simps filter_map comp_def
        using k
        by (intro arg_cong [where f = "map mark"] filter_cong refl)
           (auto simp: Q_def mark_def ex' in_group_def eligible_invoiced)
      also have "\<dots> = filter Q (entries s)"
        using k by (intro map_idI) (auto simp: Q_def mark_def in_group_def)
      finally show ?thesis .
    qed
    have split: "filter (\<lambda>e. eligible m y e \<and> entry_client_id e \<in> set (k # cs)
                        \<and> \<not> invoice_exists (invoices s) (entry_client_id e) m y) (entries s)
                 = filter (\<lambda>e. in_group m y k e \<or> Q e) (entries s)"
      using False by (intro filter_cong) (auto simp: Q_def in_group_def)
    have disjoint: "\<forall>e \<in> set (entries s). \<not> (in_group m y k e \<and> Q e)"
      using k by (auto simp: Q_def in_group_def)
    have "sum_list (map out_total_amount (snd (generate_clients render m y (k # cs) s)))
            = group_total (filter (in_group m y k) (entries s))
              + sum_list (map out_total_amount (snd (generate_clients render m y cs s')))"
      unfolding step by simp
    also have "\<dots> = group_total (filter (in_group m y k) (entries s))
                     + group_total (filter Q (entries s))"
      unfolding Cons.IH [OF dcs, of s'] same ..
    also have "\<dots> = group_total (filter (\<lambda>e. in_group m y k e \<or> Q e) (entries s))"
      unfolding group_total_def using sum_list_filter_split [OF disjoint, of entry_amount] by simp
    finally show ?thesis unfolding split .
  qed
qed

lemma billed_clients:
  "e \<in> set (entries s) \<Longrightarrow> eligible m y e
     \<Longrightarrow> entry_client_id e \<in> set (remdups (map entry_client_id (filter (eligible m y) (entries s))))"
  by auto

lemma GenerateForPeriod_entries:
  "entries (fst (GenerateForPeriod render m y s)) =
     map (\<lambda>e. if eligible m y e \<and> \<not> invoice_exists (invoices s) (entry_client_id e) m y
               then e\<lparr>invoiced := True\<rparr> else e)
       (entries s)"
  unfolding GenerateForPeriod_def generate_clients_entries
  by (intro map_cong refl) (auto dest: billed_clients)

lemma GenerateForPeriod_totals:
  "sum_list (map out_total_amount (snd (GenerateForPeriod render m y s)))
     = group_total (billed m y s)"
proof -
  have "filter (\<lambda>e. eligible m y e
                  \<and> entry_client_id e \<in> set (remdups (map entry_client_id
                                                   (filter (eligible m y) (entries s))))
                  \<and> \<not> invoice_exists (invoices s) (entry_client_id e) m y) (entries s)
        = billed m y s"
    unfolding billed_def by (intro filter_cong refl) (auto dest: billed_clients)
  then show ?thesis
    unfolding GenerateForPeriod_def
    using generate_clients_totals [of "remdups (map entry_client_id (filter (eligible m y) (entries s)))"
        render m y s]
    by simp
qed

lemma GenerateForPeriod_leaves_nothing:
  assumes "e \<in> set (entries (fst (GenerateForPeriod render m y s)))" and "eligible m y e"
  shows "invoice_exists (invoices (fst (GenerateForPeriod render m y s))) (entry_client_id e) m y"
proof -
  from assms(1) obtain e0 where e0: "e0 \<in> set (entries s)"
    and e: "e = (if eligible m y e0 \<and> \<not> invoice_exists (invoices s) (entry_client_id e0) m y
                 then e0\<lparr>invoiced := True\<rparr> else e0)"
    unfolding GenerateForPeriod_entries by auto
  from e assms(2) have "e = e0" and "invoice_exists (invoices s) (entry_client_id e0) m y"
    by (auto simp: eligible_invoiced split: if_splits)
  then show ?thesis
    unfolding GenerateForPeriod_def by (simp add: generate_clients_invoices_mono)
qed

text \<open>
  Claim C3, on the run as the specification describes it. A run keeps the invoices'
  keys (client, month, year) distinct, so at most one invoice exists for a client and a
  period. A second run for the same period, right after the first, returns no invoice
  and no amount and changes nothing. The totals of the first run add up the amounts of
  the billed entries, each once; those entries are then marked as invoiced, which makes
  them eligible for no period, and none is left to bill.
\<close>

theorem no_duplicate_invoice:
  assumes "distinct (map invoice_key (invoices s))"
  shows "distinct (map invoice_key (invoices (fst (GenerateForPeriod render m y s))))
       \<and> GenerateForPeriod render' m y (fst (GenerateForPeriod render m y s))
           = (fst (GenerateForPeriod render m y s), [])
       \<and> sum_list (map out_total_amount (snd (GenerateForPeriod render m y s)))
           = group_total (billed m y s)
       \<and> (\<forall>e \<in> set (billed m y s). \<not> eligible m' y' (e\<lparr>invoiced := True\<rparr>))
       \<and> entries (fst (GenerateForPeriod render m y s))
           = map (\<lambda>e. if e \<in> set (billed m y s) then e\<lparr>invoiced := True\<rparr> else e) (entries s)
       \<and> billed m y (fst (GenerateForPeriod render m y s)) = []"
proof -
  let ?s1 = "fst (GenerateForPeriod render m y s)"
  have a: "distinct (map invoice_key (invoices ?s1))"
    unfolding GenerateForPeriod_def using assms by (rule generate_clients_distinct)
  have b: "GenerateForPeriod render' m y ?s1 = (?s1, [])"
    unfolding GenerateForPeriod_def [of render' m y ?s1]
    by (rule generate_clients_skip_all) (auto dest: GenerateForPeriod_leaves_nothing)
  have c: "entries ?s1
           = map (\<lambda>e. if e \<in> set (billed m y s) then e\<lparr>invoiced := True\<rparr> else e) (entries s)"
    unfolding GenerateForPeriod_entries by (intro map_cong refl) (auto simp: billed_def)
  have d: "billed m y ?s1 = []"
    unfolding billed_def filter_empty_conv
    by (auto dest: GenerateForPeriod_leaves_nothing)
  show ?thesis
    using a b c d GenerateForPeriod_totals [of render m y s]
    by (simp add: eligible_invoiced)
qed

theorem no_duplicate_invoice_witness:
  "distinct (map invoice_key (invoices store_march))
   \<and> map out_client_id (snd (GenerateForPeriod render_ok 3 2025 store_march)) = [7, 8]
   \<and> map out_total_amount (snd (GenerateForPeriod render_ok 3 2025 store_march)) = [200, 40]
   \<and> snd (GenerateForPeriod render_fails 3 2025
             (fst (GenerateForPeriod render_ok 3 2025 store_march))) = []
   \<and> map invoiced (entries (fst (GenerateForPeriod render_ok 3 2025 store_march)))
       = [True, True, True]
   \<and> map invoice_key (invoices (fst (GenerateForPeriod render_ok 3 2025 store_march)))
       = [(7, 3, 2025), (8, 3, 2025)]"
proof -
  have d: "distinct (map invoice_key (invoices store_march))"
    by (simp add: store_march_def)
  have clients: "map out_client_id (snd (GenerateForPeriod render_ok 3 2025 store_march)) = [7, 8]"
    by code_simp
  have totals: "map out_total_amount (snd (GenerateForPeriod render_ok 3 2025 store_march)) = [200, 40]"
    by code_simp
  have marked: "map invoiced (entries (fst (GenerateForPeriod render_ok 3 2025 store_march)))
       = [True, True, True]"
    by code_simp
  have keys: "map invoice_key (invoices (fst (GenerateForPeriod render_ok 3 2025 store_march)))
       = [(7, 3, 2025), (8, 3, 2025)]"
    by code_simp
  from no_duplicate_invoice [OF d, of render_ok 3 2025 render_fails]
  have "snd (GenerateForPeriod render_fails 3 2025
               (fst (GenerateForPeriod render_ok 3 2025 store_march))) = []"
    by simp
  then show ?thesis
    using d clients totals marked keys by simp
qed

end
